theory Spec2Isabelle
  imports Main
begin

section \<open>The umbrella header \<^verbatim>\<open>ThreadCommissioner.h\<close>\<close>

text \<open>
  The repository consists of one C header,
  \<^verbatim>\<open>Sources/CThreadCommissioner/include/ThreadCommissioner.h\<close>.
  The header is modelled as it is written: as the list of its text lines, character for
  character. The file holds 35 newline characters and its last line (the closing
  \<^verbatim>\<open>#endif\<close>) is not terminated by one, so it has 36 lines. Everything below (the
  kind of each line, the tokens of the code lines, the declarations, the expansion by the
  preprocessor) is computed from this text.
\<close>

definition header_lines :: "string list" where
\<open>header_lines =
  [''//'',
   ''//  ThreadCommissioner.h'',
   ''//  ThreadCommissioner'',
   ''//'',
   ''//  Umbrella header for Thread Commissioner package'',
   ''//'',
   '''',
   ''#ifndef ThreadCommissioner_h'',
   ''#define ThreadCommissioner_h'',
   '''',
   ''// Import from mbedTLS framework'',
   ''#import <mbedtls/ssl.h>'',
   ''#import <mbedtls/net_sockets.h>'',
   ''#import <mbedtls/entropy.h>'',
   ''#import <mbedtls/ctr_drbg.h>'',
   ''#import <mbedtls/error.h>'',
   ''#import <mbedtls/debug.h>'',
   ''#import <mbedtls/timing.h>'',
   ''#import <mbedtls/ssl_ciphersuites.h>'',
   '''',
   ''#include <stddef.h>'',
   '''',
   ''#ifdef __cplusplus'',
   ''extern "C" {'',
   ''#endif'',
   '''',
   ''// EC-JPAKE password function declaration'',
   ''int mbedtls_ssl_set_hs_ecjpake_password(mbedtls_ssl_context *ssl,'',
   ''                                        const unsigned char *pw,'',
   ''                                        size_t pw_len);'',
   '''',
   ''#ifdef __cplusplus'',
   ''}'',
   ''#endif'',
   '''',
   ''#endif /* ThreadCommissioner_h */'']\<close>

text \<open>The two macro names the header tests, and the headers it names.\<close>

definition guard :: string where
  "guard = ''ThreadCommissioner_h''"

definition cplusplus :: string where
  "cplusplus = ''__cplusplus''"

definition mbedtls_headers :: "string list" where
  "mbedtls_headers =
    [''mbedtls/ssl.h'', ''mbedtls/net_sockets.h'', ''mbedtls/entropy.h'',
     ''mbedtls/ctr_drbg.h'', ''mbedtls/error.h'', ''mbedtls/debug.h'',
     ''mbedtls/timing.h'', ''mbedtls/ssl_ciphersuites.h'']"

definition stddef :: string where
  "stddef = ''stddef.h''"


section \<open>Lines\<close>

text \<open>
  A line of the header is blank, a \<^verbatim>\<open>//\<close> comment, a preprocessor directive (its first
  non-blank character is \<^verbatim>\<open>#\<close>), or code. Of a directive the name and its first
  argument are kept; what follows the argument (the comment after the last
  \<^verbatim>\<open>#endif\<close>) is dropped. The header has no block comment outside that line and no
  line continuation.
\<close>

datatype directive =
    Ifndef string
  | Ifdef string
  | Define string
  | Import string
  | Include string
  | Endif
  | Unknown string

datatype line_kind = Blank | Comment | Directive directive | Code string

definition is_space :: "char \<Rightarrow> bool" where
  "is_space c = (c = CHR '' '' \<or> c = CHR 0x09)"

definition ltrim :: "string \<Rightarrow> string" where
  "ltrim = dropWhile is_space"

definition first_word :: "string \<Rightarrow> string" where
  "first_word s = takeWhile (\<lambda>c. \<not> is_space c) s"

definition after_word :: "string \<Rightarrow> string" where
  "after_word s = ltrim (dropWhile (\<lambda>c. \<not> is_space c) s)"

text \<open>The file named by \<^verbatim>\<open><file>\<close> or \<^verbatim>\<open>"file"\<close>.\<close>

definition header_name :: "string \<Rightarrow> string" where
  "header_name s =
    (case s of
       [] \<Rightarrow> []
     | c # cs \<Rightarrow>
         if c = CHR ''<'' then takeWhile (\<lambda>d. d \<noteq> CHR ''>'') cs
         else if c = CHR 0x22 then takeWhile (\<lambda>d. d \<noteq> CHR 0x22) cs
         else s)"

definition parse_directive :: "string \<Rightarrow> directive" where
  "parse_directive s =
    (let body = ltrim s; name = first_word body; arg = first_word (after_word body) in
     if name = ''ifndef'' then Ifndef arg
     else if name = ''ifdef'' then Ifdef arg
     else if name = ''define'' then Define arg
     else if name = ''import'' then Import (header_name arg)
     else if name = ''include'' then Include (header_name arg)
     else if name = ''endif'' then Endif
     else Unknown name)"

definition classify :: "string \<Rightarrow> line_kind" where
  "classify l =
    (case ltrim l of
       [] \<Rightarrow> Blank
     | c # cs \<Rightarrow>
         if c = CHR ''#'' then Directive (parse_directive cs)
         else if c = CHR ''/'' \<and> take 1 cs = ''/'' then Comment
         else Code (c # cs))"

definition header_items :: "line_kind list" where
  "header_items = map classify header_lines"


section \<open>Tokens\<close>

text \<open>
  Code lines are cut into identifiers (keywords and numbers included), string literals
  and single punctuation characters; a \<^verbatim>\<open>//\<close> comment ends the line.
\<close>

datatype token = Ident string | Str string | Punct char

definition is_ident_char :: "char \<Rightarrow> bool" where
  "is_ident_char c =
    (c \<in> set ''abcdefghijklmnopqrstuvwxyzABCDEFGHIJKLMNOPQRSTUVWXYZ0123456789_'')"

definition flush :: "string \<Rightarrow> token list" where
  "flush w = (if w = [] then [] else [Ident w])"

fun lex :: "bool \<Rightarrow> string \<Rightarrow> string \<Rightarrow> token list" where
  "lex in_str acc [] = (if in_str then [Str acc] else flush acc)"
| "lex in_str acc (c # cs) =
    (if in_str then
       (if c = CHR 0x22 then Str acc # lex False [] cs else lex True (acc @ [c]) cs)
     else if is_ident_char c then lex False (acc @ [c]) cs
     else if is_space c then flush acc @ lex False [] cs
     else if c = CHR 0x22 then flush acc @ lex True [] cs
     else if c = CHR ''/'' \<and> take 1 cs = ''/'' then flush acc
     else flush acc @ Punct c # lex False [] cs)"

definition tokenize :: "string \<Rightarrow> token list" where
  "tokenize l = lex False [] l"

text \<open>The tokens of all code lines of a file, whatever conditional group they are in.\<close>

fun code_tokens :: "line_kind list \<Rightarrow> token list" where
  "code_tokens [] = []"
| "code_tokens (Code l # ls) = tokenize l @ code_tokens ls"
| "code_tokens (_ # ls) = code_tokens ls"


section \<open>Declarations\<close>

text \<open>
  The token stream is cut after every \<^verbatim>\<open>;\<close>, \<^verbatim>\<open>{\<close> and \<^verbatim>\<open>}\<close>, and each piece
  is read as one top-level construct: the opening of a linkage specification
  \<^verbatim>\<open>extern "..." {\<close>, a closing brace, a function prototype (declarator followed by
  \<^verbatim>\<open>;\<close>), the head of a function definition (declarator followed by \<^verbatim>\<open>{\<close>, the
  start of a body), the start of a \<^verbatim>\<open>struct\<close>, \<^verbatim>\<open>union\<close>, \<^verbatim>\<open>enum\<close> or
  \<^verbatim>\<open>typedef\<close>, or anything else (a statement, an object declaration, ...).
  Types are read as far as prototypes of this kind need them: the basic types below,
  names of typedefs, \<^verbatim>\<open>const\<close> in front and pointers behind.
\<close>

datatype ctype =
    TVoid
  | TInt
  | TChar
  | TUChar
  | TUInt
  | TNamed string
  | TConst ctype
  | TPtr ctype

record param =
  ptype :: ctype
  pname :: string

record prototype =
  ret :: ctype
  fname :: string
  params :: "param list"

datatype item =
    LinkageOpen string
  | BraceClose
  | Prototype prototype
  | FunctionDef prototype
  | TypeDef "token list"
  | Other "token list"

definition terminators :: "token list" where
  "terminators = [Punct (CHR '';''), Punct (CHR ''{''), Punct (CHR ''}'')]"

fun chunks :: "token list \<Rightarrow> token list \<Rightarrow> token list list" where
  "chunks acc [] = (if acc = [] then [] else [acc])"
| "chunks acc (t # ts) =
    (if t \<in> set terminators then (acc @ [t]) # chunks [] ts else chunks (acc @ [t]) ts)"

fun split_on :: "'a \<Rightarrow> 'a list \<Rightarrow> 'a list \<Rightarrow> 'a list list" where
  "split_on sep acc [] = [acc]"
| "split_on sep acc (t # ts) =
    (if t = sep then acc # split_on sep [] ts else split_on sep (acc @ [t]) ts)"

definition c_keywords :: "string list" where
  "c_keywords =
    [''auto'', ''break'', ''case'', ''char'', ''const'', ''continue'', ''default'', ''do'',
     ''double'', ''else'', ''enum'', ''extern'', ''float'', ''for'', ''goto'', ''if'',
     ''inline'', ''int'', ''long'', ''register'', ''restrict'', ''return'', ''short'',
     ''signed'', ''sizeof'', ''static'', ''struct'', ''switch'', ''typedef'', ''union'',
     ''unsigned'', ''void'', ''volatile'', ''while'']"

fun parse_base :: "token list \<Rightarrow> ctype option" where
  "parse_base [] = None"
| "parse_base (Ident a # ts) =
    (if a = ''const'' then map_option TConst (parse_base ts)
     else if ts = [] then
       (if a = ''void'' then Some TVoid
        else if a = ''int'' then Some TInt
        else if a = ''char'' then Some TChar
        else if a = ''unsigned'' then Some TUInt
        else if a \<in> set c_keywords then None
        else Some (TNamed a))
     else if a = ''unsigned'' \<and> ts = [Ident ''char''] then Some TUChar
     else if a = ''unsigned'' \<and> ts = [Ident ''int''] then Some TUInt
     else None)"
| "parse_base (_ # _) = None"

definition is_star :: "token \<Rightarrow> bool" where
  "is_star t = (t = Punct (CHR ''*''))"

definition parse_type :: "token list \<Rightarrow> ctype option" where
  "parse_type ts =
    (let stars = dropWhile (\<lambda>t. \<not> is_star t) ts in
     if list_all is_star stars
     then map_option (TPtr ^^ length stars) (parse_base (takeWhile (\<lambda>t. \<not> is_star t) ts))
     else None)"

fun all_some :: "'a option list \<Rightarrow> 'a list option" where
  "all_some [] = Some []"
| "all_some (None # _) = None"
| "all_some (Some x # xs) = map_option ((#) x) (all_some xs)"

text \<open>A type followed by the declared name: the head of a declarator.\<close>

definition parse_named :: "token list \<Rightarrow> param option" where
  "parse_named ts =
    (case rev ts of
       Ident n # r \<Rightarrow>
         (if n \<in> set c_keywords then None
          else map_option (\<lambda>t. \<lparr>ptype = t, pname = n\<rparr>) (parse_type (rev r)))
     | _ \<Rightarrow> None)"

text \<open>A parameter may leave its name out.\<close>

definition parse_param :: "token list \<Rightarrow> param option" where
  "parse_param ts =
    (case parse_named ts of
       Some p \<Rightarrow> Some p
     | None \<Rightarrow> map_option (\<lambda>t. \<lparr>ptype = t, pname = []\<rparr>) (parse_type ts))"

definition parse_params :: "token list \<Rightarrow> param list option" where
  "parse_params args =
    (if args = [] \<or> args = [Ident ''void''] then Some []
     else all_some (map parse_param (split_on (Punct (CHR '','')) [] args)))"

definition storage_classes :: "string list" where
  "storage_classes = [''extern'', ''static'', ''inline'']"

fun is_storage_class :: "token \<Rightarrow> bool" where
  "is_storage_class (Ident a) = (a \<in> set storage_classes)"
| "is_storage_class _ = False"

definition is_open :: "token \<Rightarrow> bool" where
  "is_open t = (t = Punct (CHR ''(''))"

definition is_close :: "token \<Rightarrow> bool" where
  "is_close t = (t = Punct (CHR '')''))"

text \<open>
  \<^verbatim>\<open>type name ( type name , ... ) t\<close>, where the terminator \<^verbatim>\<open>t\<close> is returned with
  the prototype.
\<close>

definition parse_function :: "token list \<Rightarrow> (prototype \<times> token) option" where
  "parse_function ch =
    (let head = dropWhile is_storage_class (takeWhile (\<lambda>t. \<not> is_open t) ch);
         inner = drop 1 (dropWhile (\<lambda>t. \<not> is_open t) ch);
         args = takeWhile (\<lambda>t. \<not> is_close t) inner;
         rest = dropWhile (\<lambda>t. \<not> is_close t) inner
     in case (rest, parse_named head, parse_params args) of
          ([_, t], Some h, Some ps) \<Rightarrow> Some (\<lparr>ret = ptype h, fname = pname h, params = ps\<rparr>, t)
        | _ \<Rightarrow> None)"

definition type_keywords :: "string list" where
  "type_keywords = [''struct'', ''union'', ''enum'', ''typedef'']"

definition read_declaration :: "token list \<Rightarrow> item" where
  "read_declaration ch =
    (if (case ch of Ident a # _ \<Rightarrow> a \<in> set type_keywords | _ \<Rightarrow> False) then TypeDef ch
     else case parse_function ch of
            Some (p, t) \<Rightarrow>
              if t = Punct (CHR '';'') then Prototype p
              else if t = Punct (CHR ''{'') then FunctionDef p
              else Other ch
          | None \<Rightarrow> Other ch)"

definition read_item :: "token list \<Rightarrow> item" where
  "read_item ch =
    (case ch of
       [Punct c] \<Rightarrow> if c = CHR ''}'' then BraceClose else Other ch
     | [Ident e, Str s, Punct c] \<Rightarrow>
         if e = ''extern'' \<and> c = CHR ''{'' then LinkageOpen s else read_declaration ch
     | _ \<Rightarrow> read_declaration ch)"

definition items :: "token list \<Rightarrow> item list" where
  "items ts = map read_item (chunks [] ts)"

text \<open>The declarations of the header, over all its code lines.\<close>

definition header_declarations :: "item list" where
  "header_declarations = items (code_tokens header_items)"

fun is_prototype :: "item \<Rightarrow> bool" where
  "is_prototype (Prototype _) = True"
| "is_prototype _ = False"

fun is_function_def :: "item \<Rightarrow> bool" where
  "is_function_def (FunctionDef _) = True"
| "is_function_def _ = False"

fun is_type_def :: "item \<Rightarrow> bool" where
  "is_type_def (TypeDef _) = True"
| "is_type_def _ = False"

fun is_other :: "item \<Rightarrow> bool" where
  "is_other (Other _) = True"
| "is_other _ = False"

text \<open>The prototype as the header writes it.\<close>

definition ecjpake_prototype :: prototype where
  "ecjpake_prototype =
    \<lparr>ret = TInt,
     fname = ''mbedtls_ssl_set_hs_ecjpake_password'',
     params =
       [\<lparr>ptype = TPtr (TNamed ''mbedtls_ssl_context''), pname = ''ssl''\<rparr>,
        \<lparr>ptype = TPtr (TConst TUChar), pname = ''pw''\<rparr>,
        \<lparr>ptype = TNamed ''size_t'', pname = ''pw_len''\<rparr>]\<rparr>"


section \<open>The interface of the specification\<close>

text \<open>
  The signature as the specification's section on external interfaces prints it, read by
  the same tokenizer and parser as the header.
\<close>

definition spec_interface :: "string list" where
  "spec_interface =
    [''int mbedtls_ssl_set_hs_ecjpake_password('',
     ''    mbedtls_ssl_context *ssl,'',
     ''    const unsigned char *pw,'',
     ''    size_t pw_len);'']"

definition spec_signature :: "item list" where
  "spec_signature = items (code_tokens (map classify spec_interface))"


section \<open>Kinds of content\<close>

text \<open>
  The three kinds of content the specification's implementation budget names: include
  directives, guard macros (the include guard and the \<^verbatim>\<open>__cplusplus\<close> guard with
  their \<^verbatim>\<open>#endif\<close>), and lines of the extern declaration.
\<close>

fun is_include :: "line_kind \<Rightarrow> bool" where
  "is_include (Directive (Import _)) = True"
| "is_include (Directive (Include _)) = True"
| "is_include _ = False"

fun is_guard :: "line_kind \<Rightarrow> bool" where
  "is_guard (Directive (Ifndef _)) = True"
| "is_guard (Directive (Ifdef _)) = True"
| "is_guard (Directive (Define _)) = True"
| "is_guard (Directive Endif) = True"
| "is_guard _ = False"

fun is_code :: "line_kind \<Rightarrow> bool" where
  "is_code (Code _) = True"
| "is_code _ = False"

definition in_budget :: "line_kind \<Rightarrow> bool" where
  "in_budget k = (is_include k \<or> is_guard k \<or> is_code k)"

text \<open>The guards of this header: its include guard and the \<^verbatim>\<open>__cplusplus\<close> guard.\<close>

definition is_own_guard :: "line_kind \<Rightarrow> bool" where
  "is_own_guard k =
    (k = Directive (Ifndef guard) \<or> k = Directive (Define guard) \<or>
     k = Directive (Ifdef cplusplus) \<or> k = Directive Endif)"

definition is_layout :: "line_kind \<Rightarrow> bool" where
  "is_layout k = (k = Blank \<or> k = Comment)"

definition control_flow_keywords :: "string list" where
  "control_flow_keywords =
    [''if'', ''else'', ''for'', ''while'', ''do'', ''switch'', ''case'', ''default'',
     ''goto'', ''return'', ''break'', ''continue'']"

fun is_control_flow :: "token \<Rightarrow> bool" where
  "is_control_flow (Ident a) = (a \<in> set control_flow_keywords)"
| "is_control_flow _ = False"


section \<open>Preprocessing\<close>

text \<open>
  What a translation unit has accumulated when it reaches the header: the macro names that
  are defined and the files that have been read. Macros matter here only through
  \<^verbatim>\<open>#ifdef\<close> and \<^verbatim>\<open>#ifndef\<close>, so their replacement text is left out, and a
  line of code passes through as its tokens, without macro replacement.
\<close>

record env =
  defined :: "string set"
  seen :: "string set"

text \<open>
  The header's expansion is the sequence of what it contributes to the translation unit:
  the contents of another file, or a line of its own code.
\<close>

datatype event = Pulled string | Line "token list"

datatype pp_error = EndifWithoutIf | UnterminatedConditional | InvalidDirective string

text \<open>
  The mbedTLS headers and \<^verbatim>\<open>stddef.h\<close> are not part of the repository. The effect of
  reading one of them on the macros and on the files read is a parameter of the model.
\<close>

type_synonym external = "string \<Rightarrow> env \<Rightarrow> env"

type_synonym unit_state = "env \<times> event list"

definition define_macro :: "string \<Rightarrow> unit_state \<Rightarrow> unit_state" where
  "define_macro m s = ((fst s)\<lparr>defined := insert m (defined (fst s))\<rparr>, snd s)"

text \<open>\<^verbatim>\<open>#include\<close> reads the file, every time.\<close>

definition pull :: "external \<Rightarrow> string \<Rightarrow> unit_state \<Rightarrow> unit_state" where
  "pull ext p s = (ext p ((fst s)\<lparr>seen := insert p (seen (fst s))\<rparr>), snd s @ [Pulled p])"

text \<open>\<^verbatim>\<open>#import\<close> reads the file unless it has been read before.\<close>

definition import_once :: "external \<Rightarrow> string \<Rightarrow> unit_state \<Rightarrow> unit_state" where
  "import_once ext p s = (if p \<in> seen (fst s) then s else pull ext p s)"

definition emit :: "string \<Rightarrow> unit_state \<Rightarrow> unit_state" where
  "emit l s = (fst s, snd s @ [Line (tokenize l)])"

text \<open>
  The conditional groups that enclose the current line, innermost first, each with the
  value of its condition. A line counts when all of them hold.
\<close>

definition active :: "bool list \<Rightarrow> bool" where
  "active cs = (False \<notin> set cs)"

fun step :: "external \<Rightarrow> bool list \<times> unit_state \<Rightarrow> line_kind \<Rightarrow> pp_error + bool list \<times> unit_state" where
  "step ext (cs, s) Blank = Inr (cs, s)"
| "step ext (cs, s) Comment = Inr (cs, s)"
| "step ext (cs, s) (Code l) = Inr (cs, if active cs then emit l s else s)"
| "step ext (cs, s) (Directive (Ifndef m)) = Inr ((m \<notin> defined (fst s)) # cs, s)"
| "step ext (cs, s) (Directive (Ifdef m)) = Inr ((m \<in> defined (fst s)) # cs, s)"
| "step ext (cs, s) (Directive Endif) =
    (case cs of [] \<Rightarrow> Inl EndifWithoutIf | _ # cs' \<Rightarrow> Inr (cs', s))"
| "step ext (cs, s) (Directive (Define m)) = Inr (cs, if active cs then define_macro m s else s)"
| "step ext (cs, s) (Directive (Import p)) =
    Inr (cs, if active cs then import_once ext p s else s)"
| "step ext (cs, s) (Directive (Include p)) = Inr (cs, if active cs then pull ext p s else s)"
| "step ext (cs, s) (Directive (Unknown n)) =
    (if active cs then Inl (InvalidDirective n) else Inr (cs, s))"

fun run :: "external \<Rightarrow> bool list \<times> unit_state \<Rightarrow> line_kind list \<Rightarrow> pp_error + bool list \<times> unit_state" where
  "run ext st [] = Inr st"
| "run ext st (l # ls) =
    (case step ext st l of Inl err \<Rightarrow> Inl err | Inr st' \<Rightarrow> run ext st' ls)"

text \<open>
  Reading a file: its lines are processed from an empty stack of conditionals, which
  must be empty again at the end of the file. The events are those the file adds.
\<close>

definition include_file :: "external \<Rightarrow> line_kind list \<Rightarrow> env \<Rightarrow> pp_error + unit_state" where
  "include_file ext file e =
    (case run ext ([], (e, [])) file of
       Inl err \<Rightarrow> Inl err
     | Inr (cs, s) \<Rightarrow> if cs = [] then Inr s else Inl UnterminatedConditional)"

definition include_header :: "external \<Rightarrow> env \<Rightarrow> pp_error + unit_state" where
  "include_header ext e = include_file ext header_items e"

text \<open>Including the header twice in a row.\<close>

definition include_twice :: "external \<Rightarrow> env \<Rightarrow> pp_error + unit_state" where
  "include_twice ext e =
    (case include_header ext e of
       Inl err \<Rightarrow> Inl err
     | Inr s \<Rightarrow>
         (case include_header ext (fst s) of
            Inl err \<Rightarrow> Inl err
          | Inr s' \<Rightarrow> Inr (fst s', snd s @ snd s')))"

text \<open>What is assumed of the external headers, where a property needs it.\<close>

definition keeps_defined :: "string \<Rightarrow> external \<Rightarrow> bool" where
  "keeps_defined m ext = (\<forall>p e. m \<in> defined e \<longrightarrow> m \<in> defined (ext p e))"

definition keeps_undefined :: "string \<Rightarrow> external \<Rightarrow> bool" where
  "keeps_undefined m ext = (\<forall>p e. m \<notin> defined e \<longrightarrow> m \<notin> defined (ext p e))"

definition keeps_seen :: "external \<Rightarrow> bool" where
  "keeps_seen ext = (\<forall>p e. seen e \<subseteq> seen (ext p e))"

text \<open>The state after the include guard is set and the nine files are brought in.\<close>

definition pulled_all :: "external \<Rightarrow> env \<Rightarrow> unit_state" where
  "pulled_all ext e =
    pull ext stddef (foldl (\<lambda>s p. import_once ext p s) (define_macro guard (e, [])) mbedtls_headers)"

fun line_tokens :: "event list \<Rightarrow> token list" where
  "line_tokens [] = []"
| "line_tokens (Line ts # evs) = ts @ line_tokens evs"
| "line_tokens (Pulled _ # evs) = line_tokens evs"


section \<open>Linkage\<close>

text \<open>
  A C translation unit names a function by its identifier. A C++ translation unit does so
  only for a function with C language linkage, that is, one declared inside
  \<^verbatim>\<open>extern "C" { }\<close>; otherwise the symbol also encodes the parameter types. A C++
  compiler defines \<^verbatim>\<open>__cplusplus\<close>, a C compiler does not.
\<close>

datatype language = LangC | LangCxx

datatype symbol = Unmangled string | Mangled string "ctype list"

definition language_of :: "env \<Rightarrow> language" where
  "language_of e = (if cplusplus \<in> defined e then LangCxx else LangC)"

definition symbol_of :: "language \<Rightarrow> string list \<Rightarrow> prototype \<Rightarrow> symbol" where
  "symbol_of lang stack p =
    (if lang = LangC \<or> take 1 stack = [''C''] then Unmangled (fname p)
     else Mangled (fname p) (map ptype (params p)))"

text \<open>
  The functions a sequence of top-level constructs declares, each with its symbol. The
  stack holds the enclosing linkage specifications. A linkage specification is a syntax
  error in C; definitions and statements are outside what is modelled.
\<close>

fun declare_items :: "language \<Rightarrow> string list \<Rightarrow> item list \<Rightarrow> (symbol \<times> prototype) list option" where
  "declare_items lang stack [] = (if stack = [] then Some [] else None)"
| "declare_items lang stack (LinkageOpen l # its) =
    (if lang = LangCxx \<and> (l = ''C'' \<or> l = ''C++'') then declare_items lang (l # stack) its else None)"
| "declare_items lang stack (BraceClose # its) =
    (case stack of [] \<Rightarrow> None | _ # stack' \<Rightarrow> declare_items lang stack' its)"
| "declare_items lang stack (Prototype p # its) =
    map_option ((#) (symbol_of lang stack p, p)) (declare_items lang stack its)"
| "declare_items lang stack (_ # its) = None"

definition own_declarations :: "language \<Rightarrow> event list \<Rightarrow> (symbol \<times> prototype) list option" where
  "own_declarations lang evs = declare_items lang [] (items (line_tokens evs))"


section \<open>Scope of type names\<close>

text \<open>
  \<open>provides p\<close> is the set of type names that file \<open>p\<close> declares. A use of the type name
  \<open>n\<close> in a line of code is in scope when a file read before that line provides \<open>n\<close>, or
  the includer had it in scope already (\<open>sc\<close>).
\<close>

fun scoped :: "(string \<Rightarrow> string set) \<Rightarrow> string \<Rightarrow> string set \<Rightarrow> event list \<Rightarrow> bool" where
  "scoped provides n sc [] = True"
| "scoped provides n sc (Pulled p # evs) = scoped provides n (sc \<union> provides p) evs"
| "scoped provides n sc (Line ts # evs) =
    (if Ident n \<in> set ts then n \<in> sc \<and> scoped provides n sc evs
     else scoped provides n sc evs)"

fun mentions :: "string \<Rightarrow> event \<Rightarrow> bool" where
  "mentions n (Line ts) = (Ident n \<in> set ts)"
| "mentions n (Pulled _) = False"


section \<open>Visibility of declarations\<close>

text \<open>
  \<open>provides p\<close> is the set of names that reading file \<open>p\<close> declares. The declarations
  visible after a sequence of events are those visible before it and those of every file
  the events read. On entry to the header the translation unit sees what it saw in any
  case (\<open>vis\<close>) and the declarations of the files it has read.
\<close>

fun visible :: "(string \<Rightarrow> string set) \<Rightarrow> string set \<Rightarrow> event list \<Rightarrow> string set" where
  "visible provides vis [] = vis"
| "visible provides vis (Pulled p # evs) = visible provides (vis \<union> provides p) evs"
| "visible provides vis (Line _ # evs) = visible provides vis evs"

definition entry_visible :: "(string \<Rightarrow> string set) \<Rightarrow> string set \<Rightarrow> env \<Rightarrow> string set" where
  "entry_visible provides vis e = vis \<union> \<Union> (provides ` seen e)"

text \<open>
  What is assumed of the external headers for visibility: a file that reading \<open>q\<close> brings
  in with it declares nothing that reading \<open>q\<close> does not make visible.
\<close>

definition brings :: "(string \<Rightarrow> string set) \<Rightarrow> external \<Rightarrow> bool" where
  "brings provides ext =
    (\<forall>q e p. p \<in> seen (ext q e) \<longrightarrow> p \<in> seen e \<or> provides p \<subseteq> provides q)"


section \<open>Expected expansion and test inputs\<close>

text \<open>
  The lines of code the header contributes, with (\<open>True\<close>) or without (\<open>False\<close>) the
  two lines guarded by \<^verbatim>\<open>__cplusplus\<close>.
\<close>

definition own_lines :: "bool \<Rightarrow> event list" where
  "own_lines cxx =
    (if cxx then [Line [Ident ''extern'', Str ''C'', Punct (CHR ''{'')]] else []) @
    [Line [Ident ''int'', Ident ''mbedtls_ssl_set_hs_ecjpake_password'', Punct (CHR ''(''),
           Ident ''mbedtls_ssl_context'', Punct (CHR ''*''), Ident ''ssl'', Punct (CHR '','')],
     Line [Ident ''const'', Ident ''unsigned'', Ident ''char'', Punct (CHR ''*''), Ident ''pw'',
           Punct (CHR '','')],
     Line [Ident ''size_t'', Ident ''pw_len'', Punct (CHR '')''), Punct (CHR '';'')]] @
    (if cxx then [Line [Punct (CHR ''}'')]] else [])"

text \<open>The \<^verbatim>\<open>#import\<close> directives of a file, in order.\<close>

fun imports_of :: "line_kind list \<Rightarrow> string list" where
  "imports_of [] = []"
| "imports_of (Directive (Import p) # ls) = p # imports_of ls"
| "imports_of (_ # ls) = imports_of ls"

text \<open>
  Concrete inputs: external headers that leave macros and files as they are, a C and a
  C++ translation unit that have read nothing yet, and a C library whose
  \<^verbatim>\<open>stddef.h\<close> declares \<^verbatim>\<open>size_t\<close>.
\<close>

definition quiet :: external where
  "quiet p e = e"

definition fresh :: env where
  "fresh = \<lparr>defined = {}, seen = {}\<rparr>"

definition fresh_cxx :: env where
  "fresh_cxx = \<lparr>defined = {cplusplus}, seen = {}\<rparr>"

definition libc :: "string \<Rightarrow> string set" where
  "libc p = (if p = stddef then {''size_t''} else {})"

text \<open>
  A translation unit that has defined the header's guard and read nothing, and files that
  each declare one name, their own.
\<close>

definition guarded :: env where
  "guarded = \<lparr>defined = {guard}, seen = {}\<rparr>"

definition file_name :: "string \<Rightarrow> string set" where
  "file_name p = {p}"


section \<open>The header, line by line\<close>

lemma header_items_eq:
  \<open>header_items =
    [Comment, Comment, Comment, Comment, Comment, Comment, Blank,
     Directive (Ifndef guard), Directive (Define guard), Blank, Comment,
     Directive (Import ''mbedtls/ssl.h''),
     Directive (Import ''mbedtls/net_sockets.h''),
     Directive (Import ''mbedtls/entropy.h''),
     Directive (Import ''mbedtls/ctr_drbg.h''),
     Directive (Import ''mbedtls/error.h''),
     Directive (Import ''mbedtls/debug.h''),
     Directive (Import ''mbedtls/timing.h''),
     Directive (Import ''mbedtls/ssl_ciphersuites.h''), Blank,
     Directive (Include stddef), Blank,
     Directive (Ifdef cplusplus),
     Code ''extern "C" {'',
     Directive Endif, Blank, Comment,
     Code ''int mbedtls_ssl_set_hs_ecjpake_password(mbedtls_ssl_context *ssl,'',
     Code ''const unsigned char *pw,'',
     Code ''size_t pw_len);'',
     Blank,
     Directive (Ifdef cplusplus), Code ''}'', Directive Endif, Blank,
     Directive Endif]\<close>
  by code_simp

lemma emit_linkage_open:
  \<open>emit ''extern "C" {'' s = (fst s, snd s @ [Line [Ident ''extern'', Str ''C'', Punct (CHR ''{'')]])\<close>
  unfolding emit_def by code_simp

lemma emit_first:
  "emit ''int mbedtls_ssl_set_hs_ecjpake_password(mbedtls_ssl_context *ssl,'' s =
    (fst s, snd s @ [Line [Ident ''int'', Ident ''mbedtls_ssl_set_hs_ecjpake_password'', Punct (CHR ''(''),
           Ident ''mbedtls_ssl_context'', Punct (CHR ''*''), Ident ''ssl'', Punct (CHR '','')]])"
  unfolding emit_def by code_simp

lemma emit_second:
  "emit ''const unsigned char *pw,'' s =
    (fst s, snd s @ [Line [Ident ''const'', Ident ''unsigned'', Ident ''char'', Punct (CHR ''*''), Ident ''pw'',
           Punct (CHR '','')]])"
  unfolding emit_def by code_simp

lemma emit_third:
  "emit ''size_t pw_len);'' s =
    (fst s, snd s @ [Line [Ident ''size_t'', Ident ''pw_len'', Punct (CHR '')''), Punct (CHR '';'')]])"
  unfolding emit_def by code_simp

lemma emit_brace_close:
  "emit ''}'' s = (fst s, snd s @ [Line [Punct (CHR ''}'')]])"
  unfolding emit_def by code_simp

lemmas emit_header = emit_linkage_open emit_first emit_second emit_third emit_brace_close

lemma run_skipped:
  "guard \<in> defined e \<Longrightarrow> run ext ([], (e, [])) header_items = Inr ([], (e, []))"
  by (simp add: header_items_eq active_def)

lemma include_header_skipped:
  "guard \<in> defined e \<Longrightarrow> include_header ext e = Inr (e, [])"
  by (simp add: include_header_def include_file_def run_skipped)

lemma run_expanded:
  assumes "guard \<notin> defined e"
  shows "run ext ([], (e, [])) header_items =
    Inr ([], (fst (pulled_all ext e),
              snd (pulled_all ext e) @ own_lines (cplusplus \<in> defined (fst (pulled_all ext e)))))"
proof (cases "cplusplus \<in> defined (fst (pulled_all ext e))")
  case True
  with assms show ?thesis
    by (simp add: header_items_eq active_def pulled_all_def mbedtls_headers_def own_lines_def
        emit_header)
next
  case False
  with assms show ?thesis
    by (simp add: header_items_eq active_def pulled_all_def mbedtls_headers_def own_lines_def
        emit_header)
qed

lemma include_header_expanded:
  "guard \<notin> defined e \<Longrightarrow>
   include_header ext e =
     Inr (fst (pulled_all ext e),
          snd (pulled_all ext e) @ own_lines (cplusplus \<in> defined (fst (pulled_all ext e))))"
  by (simp add: include_header_def include_file_def run_expanded)


lemma guard_neq_cplusplus: "guard \<noteq> cplusplus"
  by (simp add: guard_def cplusplus_def)

lemma pull_keeps_defined:
  "keeps_defined m ext \<Longrightarrow> m \<in> defined (fst s) \<Longrightarrow> m \<in> defined (fst (pull ext p s))"
  by (simp add: pull_def keeps_defined_def)

lemma pull_keeps_undefined:
  "keeps_undefined m ext \<Longrightarrow> m \<notin> defined (fst s) \<Longrightarrow> m \<notin> defined (fst (pull ext p s))"
  by (simp add: pull_def keeps_undefined_def)

lemma imports_keep_defined:
  "keeps_defined m ext \<Longrightarrow> m \<in> defined (fst s) \<Longrightarrow>
   m \<in> defined (fst (foldl (\<lambda>s p. import_once ext p s) s ps))"
  by (induction ps arbitrary: s) (simp_all add: import_once_def pull_keeps_defined)

lemma imports_keep_undefined:
  "keeps_undefined m ext \<Longrightarrow> m \<notin> defined (fst s) \<Longrightarrow>
   m \<notin> defined (fst (foldl (\<lambda>s p. import_once ext p s) s ps))"
  by (induction ps arbitrary: s) (simp_all add: import_once_def pull_keeps_undefined)

lemma guard_after_pulled_all:
  "keeps_defined guard ext \<Longrightarrow> guard \<in> defined (fst (pulled_all ext e))"
  unfolding pulled_all_def
  by (intro pull_keeps_defined imports_keep_defined) (simp_all add: define_macro_def)

lemma cplusplus_after_pulled_all:
  assumes "keeps_defined cplusplus ext" and "keeps_undefined cplusplus ext"
  shows "(cplusplus \<in> defined (fst (pulled_all ext e))) = (cplusplus \<in> defined e)"
proof (cases "cplusplus \<in> defined e")
  case True
  have "cplusplus \<in> defined (fst (pulled_all ext e))"
    unfolding pulled_all_def
    by (intro pull_keeps_defined imports_keep_defined assms) (simp add: define_macro_def True)
  with True show ?thesis by simp
next
  case False
  have "cplusplus \<notin> defined (fst (pulled_all ext e))"
    unfolding pulled_all_def
    by (intro pull_keeps_undefined imports_keep_undefined assms)
       (use False guard_neq_cplusplus in \<open>simp add: define_macro_def\<close>)
  with False show ?thesis by simp
qed

lemma import_once_seen:
  assumes "keeps_seen ext"
  shows "insert p (seen (fst s)) \<subseteq> seen (fst (import_once ext p s))"
proof -
  have "insert p (seen (fst s)) \<subseteq> seen (ext p ((fst s)\<lparr>seen := insert p (seen (fst s))\<rparr>))"
    using assms [unfolded keeps_seen_def, rule_format, of "(fst s)\<lparr>seen := insert p (seen (fst s))\<rparr>" p]
    by simp
  then show ?thesis
    by (auto simp add: import_once_def pull_def)
qed

lemma imports_seen:
  "keeps_seen ext \<Longrightarrow>
   seen (fst s) \<union> set ps \<subseteq> seen (fst (foldl (\<lambda>s p. import_once ext p s) s ps))"
proof (induction ps arbitrary: s)
  case Nil
  then show ?case by simp
next
  case (Cons p ps)
  from Cons.IH [OF Cons.prems, of "import_once ext p s"] import_once_seen [OF Cons.prems, of p s]
  show ?case by auto
qed

lemma pull_seen:
  assumes "keeps_seen ext"
  shows "insert p (seen (fst s)) \<subseteq> seen (fst (pull ext p s))"
  using assms [unfolded keeps_seen_def, rule_format, of "(fst s)\<lparr>seen := insert p (seen (fst s))\<rparr>" p]
  by (simp add: pull_def)

lemma seen_after_pulled_all:
  assumes "keeps_seen ext"
  shows "set mbedtls_headers \<subseteq> seen (fst (pulled_all ext e))"
proof -
  let ?s = "foldl (\<lambda>s p. import_once ext p s) (define_macro guard (e, [])) mbedtls_headers"
  have "set mbedtls_headers \<subseteq> seen (fst ?s)"
    using imports_seen [OF assms, of "define_macro guard (e, [])" mbedtls_headers] by simp
  also have "\<dots> \<subseteq> seen (fst (pull ext stddef ?s))"
    using pull_seen [OF assms, of stddef ?s] by simp
  finally show ?thesis by (simp add: pulled_all_def)
qed

lemma imports_only_pull:
  "set (snd s) \<subseteq> range Pulled \<Longrightarrow>
   set (snd (foldl (\<lambda>s p. import_once ext p s) s ps)) \<subseteq> range Pulled"
  by (induction ps arbitrary: s) (auto simp add: import_once_def pull_def)

lemma events_of_pulled_all:
  "\<exists>evs. set evs \<subseteq> range Pulled \<and> snd (pulled_all ext e) = evs @ [Pulled stddef]"
proof -
  let ?s = "foldl (\<lambda>s p. import_once ext p s) (define_macro guard (e, [])) mbedtls_headers"
  have "set (snd ?s) \<subseteq> range Pulled"
    by (rule imports_only_pull) (simp add: define_macro_def)
  moreover have "snd (pulled_all ext e) = snd ?s @ [Pulled stddef]"
    by (simp add: pulled_all_def pull_def)
  ultimately show ?thesis by blast
qed

lemma line_tokens_append: "line_tokens (xs @ ys) = line_tokens xs @ line_tokens ys"
  by (induction xs rule: line_tokens.induct) simp_all

lemma line_tokens_pulled: "set evs \<subseteq> range Pulled \<Longrightarrow> line_tokens evs = []"
  by (induction evs rule: line_tokens.induct) auto

lemma line_tokens_pulled_all: "line_tokens (snd (pulled_all ext e)) = []"
  using events_of_pulled_all [of ext e] by (auto simp add: line_tokens_append line_tokens_pulled)

lemma scoped_known: "n \<in> sc \<Longrightarrow> scoped provides n sc evs"
  by (induction evs arbitrary: sc rule: scoped.induct) simp_all

lemma scoped_after_pull:
  "set evs \<subseteq> range Pulled \<Longrightarrow> n \<in> provides p \<Longrightarrow> scoped provides n sc (evs @ Pulled p # rest)"
  by (induction evs arbitrary: sc) (auto simp add: scoped_known)

lemma items_own_lines_cxx:
  "items (line_tokens (own_lines True)) = [LinkageOpen ''C'', Prototype ecjpake_prototype, BraceClose]"
  by code_simp

lemma items_own_lines_c:
  "items (line_tokens (own_lines False)) = [Prototype ecjpake_prototype]"
  by code_simp

lemma include_positions:
  "header_items ! 20 = Directive (Include stddef) \<and> header_items ! 29 = Code ''size_t pw_len);''"
  by code_simp

lemma cxx_without_wrapper:
  "declare_items LangCxx [] [Prototype ecjpake_prototype] =
    Some [(Mangled ''mbedtls_ssl_set_hs_ecjpake_password''
            [TPtr (TNamed ''mbedtls_ssl_context''), TPtr (TConst TUChar), TNamed ''size_t''],
           ecjpake_prototype)]"
  by (simp add: symbol_of_def ecjpake_prototype_def)

lemma quiet_keeps_defined: "keeps_defined m quiet"
  by (simp add: keeps_defined_def quiet_def)

lemma quiet_keeps_undefined: "keeps_undefined m quiet"
  by (simp add: keeps_undefined_def quiet_def)

lemma quiet_keeps_seen: "keeps_seen quiet"
  by (simp add: keeps_seen_def quiet_def)

lemma quiet_brings: "brings provides quiet"
  by (simp add: brings_def quiet_def)

lemma visible_append:
  "visible provides vis (xs @ ys) = visible provides (visible provides vis xs) ys"
  by (induction xs arbitrary: vis rule: visible.induct) simp_all

lemma visible_own_lines: "visible provides vis (own_lines b) = vis"
  by (simp add: own_lines_def)

lemma pull_shows:
  assumes b: "brings provides ext"
    and j: "\<And>p. p \<in> seen (fst s) \<Longrightarrow> provides p \<subseteq> visible provides vis (snd s)"
    and p: "p \<in> seen (fst (pull ext q s))"
  shows "provides p \<subseteq> visible provides vis (snd (pull ext q s))"
proof -
  let ?e = "(fst s)\<lparr>seen := insert q (seen (fst s))\<rparr>"
  have ev: "visible provides vis (snd (pull ext q s)) = visible provides vis (snd s) \<union> provides q"
    by (simp add: pull_def visible_append)
  from p have "p \<in> seen (ext q ?e)" by (simp add: pull_def)
  with b have "p \<in> seen ?e \<or> provides p \<subseteq> provides q"
    unfolding brings_def by blast
  then consider "p = q" | "p \<in> seen (fst s)" | "provides p \<subseteq> provides q" by auto
  then show ?thesis
  proof cases
    case 1
    then show ?thesis by (simp add: ev)
  next
    case 2
    from j [OF 2] show ?thesis by (auto simp add: ev)
  next
    case 3
    then show ?thesis by (auto simp add: ev)
  qed
qed

lemma imports_show:
  assumes b: "brings provides ext"
  shows "(\<And>p. p \<in> seen (fst s) \<Longrightarrow> provides p \<subseteq> visible provides vis (snd s)) \<Longrightarrow>
    p \<in> seen (fst (foldl (\<lambda>s p. import_once ext p s) s ps)) \<Longrightarrow>
    provides p \<subseteq> visible provides vis (snd (foldl (\<lambda>s p. import_once ext p s) s ps))"
proof (induction ps arbitrary: s)
  case Nil
  then show ?case by simp
next
  case (Cons q ps)
  have "provides r \<subseteq> visible provides vis (snd (import_once ext q s))"
    if "r \<in> seen (fst (import_once ext q s))" for r
  proof (cases "q \<in> seen (fst s)")
    case True
    with that Cons.prems(1) show ?thesis by (simp add: import_once_def)
  next
    case False
    from that False have "r \<in> seen (fst (pull ext q s))"
      by (simp add: import_once_def)
    with b Cons.prems(1) have "provides r \<subseteq> visible provides vis (snd (pull ext q s))"
      by (rule pull_shows)
    with False show ?thesis by (simp add: import_once_def)
  qed
  from Cons.IH [OF this] Cons.prems(2) show ?case by simp
qed

lemma pulled_all_shows:
  assumes b: "brings provides ext"
    and p: "p \<in> seen (fst (pulled_all ext e))"
  shows "provides p \<subseteq> visible provides (entry_visible provides vis e) (snd (pulled_all ext e))"
proof -
  let ?init = "define_macro guard (e, [])"
  let ?s = "foldl (\<lambda>s p. import_once ext p s) ?init mbedtls_headers"
  have j0: "provides r \<subseteq> visible provides (entry_visible provides vis e) (snd ?init)"
    if "r \<in> seen (fst ?init)" for r
    using that by (auto simp add: define_macro_def entry_visible_def)
  have j1: "provides r \<subseteq> visible provides (entry_visible provides vis e) (snd ?s)"
    if "r \<in> seen (fst ?s)" for r
    using b j0 that by (rule imports_show)
  from p have "p \<in> seen (fst (pull ext stddef ?s))"
    by (simp add: pulled_all_def)
  with b j1 have
    "provides p \<subseteq> visible provides (entry_visible provides vis e) (snd (pull ext stddef ?s))"
    by (rule pull_shows)
  then show ?thesis
    by (simp add: pulled_all_def)
qed


section \<open>The claims\<close>

text \<open>
  Claim C1. The prototype the header declares is the signature of the specification's
  section on external interfaces: the function \<^verbatim>\<open>mbedtls_ssl_set_hs_ecjpake_password\<close>
  returns \<^verbatim>\<open>int\<close> and takes exactly three parameters, of types
  \<^verbatim>\<open>mbedtls_ssl_context *\<close>, \<^verbatim>\<open>const unsigned char *\<close> and \<^verbatim>\<open>size_t\<close>, in
  that order. Both texts are read by the same parser; the header's only prototype and the
  specification's are the same declaration.
\<close>

theorem prototype_matches_spec:
  "filter is_prototype header_declarations = spec_signature \<and>
   spec_signature =
     [Prototype
       \<lparr>ret = TInt,
        fname = ''mbedtls_ssl_set_hs_ecjpake_password'',
        params =
          [\<lparr>ptype = TPtr (TNamed ''mbedtls_ssl_context''), pname = ''ssl''\<rparr>,
           \<lparr>ptype = TPtr (TConst TUChar), pname = ''pw''\<rparr>,
           \<lparr>ptype = TNamed ''size_t'', pname = ''pw_len''\<rparr>]\<rparr>]"
  by code_simp

text \<open>
  Claim C2. The header declares exactly one function prototype of its own,
  \<^verbatim>\<open>mbedtls_ssl_set_hs_ecjpake_password\<close>, and no function definition: over all its
  code lines, in either branch of the conditionals, the top-level constructs are the
  opening of \<^verbatim>\<open>extern "C"\<close>, the prototype and the closing brace, and none is the head
  of a function body.
\<close>

theorem one_prototype_no_body:
  "header_declarations = [LinkageOpen ''C'', Prototype ecjpake_prototype, BraceClose] \<and>
   length (filter is_prototype header_declarations) = 1 \<and>
   filter is_function_def header_declarations = [] \<and>
   fname ecjpake_prototype = ''mbedtls_ssl_set_hs_ecjpake_password''"
  by code_simp

text \<open>
  Claim C3. The file has no logic of its own: no function definition, no
  \<^verbatim>\<open>struct\<close>, \<^verbatim>\<open>union\<close>, \<^verbatim>\<open>enum\<close> or \<^verbatim>\<open>typedef\<close>, no control-flow keyword
  and no statement. Every line is an include directive, a guard directive, a comment, a
  blank line or a line of code, and the lines of code together are the single extern
  declaration: the prototype inside its \<^verbatim>\<open>extern "C"\<close> braces.
\<close>

theorem no_original_logic:
  "filter is_function_def header_declarations = [] \<and>
   filter is_type_def header_declarations = [] \<and>
   filter is_other header_declarations = [] \<and>
   filter is_control_flow (code_tokens header_items) = [] \<and>
   list_all (\<lambda>k. is_include k \<or> is_guard k \<or> is_layout k \<or> is_code k) header_items \<and>
   items (code_tokens (filter is_code header_items)) =
     [LinkageOpen ''C'', Prototype ecjpake_prototype, BraceClose]"
  by code_simp

text \<open>
  Claim C4, as stated: the file has 36 lines and every one of them is an include
  directive, a guard macro or part of the extern declaration. The first line of the file
  is a comment, which is none of the three.
\<close>

theorem budget_counterexample:
  "header_items ! 0 = Comment \<and> \<not> in_budget (header_items ! 0) \<and>
   \<not> (length header_lines = 36 \<and> list_all in_budget header_items)"
  by code_simp

text \<open>
  Claim C4, amended: the file has 36 lines and every one of them is an include directive,
  a guard macro, part of the extern declaration, a comment or a blank line. The 9 include
  directives are the eight \<^verbatim>\<open>#import\<close> lines and \<^verbatim>\<open>#include <stddef.h>\<close>; the 7
  guard directives are those of the include guard \<^verbatim>\<open>ThreadCommissioner_h\<close> and of the
  \<^verbatim>\<open>__cplusplus\<close> guard, as written here; the 5 lines of code are the prototype in
  its \<^verbatim>\<open>extern "C"\<close> braces and nothing else; the other 15 lines are comments or
  blank.
\<close>

theorem budget_amended:
  "length header_lines = 36 \<and>
   list_all (\<lambda>k. is_include k \<or> is_own_guard k \<or> is_code k \<or> is_layout k) header_items \<and>
   filter (\<lambda>l. is_include (classify l)) header_lines =
     [''#import <mbedtls/ssl.h>'', ''#import <mbedtls/net_sockets.h>'',
      ''#import <mbedtls/entropy.h>'', ''#import <mbedtls/ctr_drbg.h>'',
      ''#import <mbedtls/error.h>'', ''#import <mbedtls/debug.h>'',
      ''#import <mbedtls/timing.h>'', ''#import <mbedtls/ssl_ciphersuites.h>'',
      ''#include <stddef.h>''] \<and>
   filter (\<lambda>l. is_guard (classify l)) header_lines =
     [''#ifndef ThreadCommissioner_h'', ''#define ThreadCommissioner_h'',
      ''#ifdef __cplusplus'', ''#endif'', ''#ifdef __cplusplus'', ''#endif'',
      ''#endif /* ThreadCommissioner_h */''] \<and>
   length (filter is_code header_items) = 5 \<and>
   header_declarations = [LinkageOpen ''C'', Prototype ecjpake_prototype, BraceClose] \<and>
   length (filter is_layout header_items) = 15"
  by code_simp

text \<open>
  Claim C5, as stated: the declarations of the eight mbedTLS headers are visible to any
  translation unit that includes the header. A translation unit in which
  \<^verbatim>\<open>ThreadCommissioner_h\<close> is defined already and that has read nothing gets nothing
  from the header: the include guard skips every line, no file is read, and the
  declarations of \<^verbatim>\<open>mbedtls/ssl.h\<close> and the others are not visible.
\<close>

theorem reexports_counterexample:
  "guard \<in> defined guarded \<and> include_header quiet guarded = Inr (guarded, []) \<and>
   \<not> (\<Union> (file_name ` set (imports_of header_items))
        \<subseteq> visible file_name (entry_visible file_name {} guarded) [])"
proof -
  have g: "guard \<in> defined guarded" by (simp add: guarded_def)
  have imps: "imports_of header_items = mbedtls_headers" by code_simp
  show ?thesis
    using g by (simp add: include_header_skipped imps mbedtls_headers_def file_name_def
        entry_visible_def guarded_def)
qed

text \<open>
  Claim C5, amended: the header's \<^verbatim>\<open>#import\<close> directives name \<^verbatim>\<open>ssl.h\<close>,
  \<^verbatim>\<open>net_sockets.h\<close>, \<^verbatim>\<open>entropy.h\<close>, \<^verbatim>\<open>ctr_drbg.h\<close>, \<^verbatim>\<open>error.h\<close>,
  \<^verbatim>\<open>debug.h\<close>, \<^verbatim>\<open>timing.h\<close> and \<^verbatim>\<open>ssl_ciphersuites.h\<close> of mbedTLS, and
  to a translation unit that includes the header while \<^verbatim>\<open>ThreadCommissioner_h\<close> is
  not defined every declaration of those eight headers is visible afterwards: each
  header has been read, by the header's directive, with a file the header read, or before
  the header was included. Assumed of the external headers: a file that has been read
  stays read, and a file brought in with another declares nothing beyond what reading that
  other makes visible.
\<close>

theorem reexports_mbedtls:
  assumes "keeps_seen ext" and "brings provides ext" and "guard \<notin> defined e"
  shows "imports_of header_items =
           [''mbedtls/ssl.h'', ''mbedtls/net_sockets.h'', ''mbedtls/entropy.h'',
            ''mbedtls/ctr_drbg.h'', ''mbedtls/error.h'', ''mbedtls/debug.h'',
            ''mbedtls/timing.h'', ''mbedtls/ssl_ciphersuites.h''] \<and>
         (\<exists>s. include_header ext e = Inr s \<and>
              set (imports_of header_items) \<subseteq> seen (fst s) \<and>
              \<Union> (provides ` set (imports_of header_items))
                \<subseteq> visible provides (entry_visible provides vis e) (snd s))"
proof -
  have imps: "imports_of header_items = mbedtls_headers"
    by code_simp
  have seen: "set mbedtls_headers \<subseteq> seen (fst (pulled_all ext e))"
    by (rule seen_after_pulled_all [OF assms(1)])
  have "provides p \<subseteq> visible provides (entry_visible provides vis e) (snd (pulled_all ext e))"
    if "p \<in> set mbedtls_headers" for p
    using pulled_all_shows [OF assms(2), of p e vis] seen that by blast
  then have vis: "\<Union> (provides ` set mbedtls_headers)
      \<subseteq> visible provides (entry_visible provides vis e) (snd (pulled_all ext e))"
    by blast
  have l: "imports_of header_items =
           [''mbedtls/ssl.h'', ''mbedtls/net_sockets.h'', ''mbedtls/entropy.h'',
            ''mbedtls/ctr_drbg.h'', ''mbedtls/error.h'', ''mbedtls/debug.h'',
            ''mbedtls/timing.h'', ''mbedtls/ssl_ciphersuites.h'']"
    by (simp add: imps mbedtls_headers_def)
  have "include_header ext e = Inr (fst (pulled_all ext e),
          snd (pulled_all ext e) @ own_lines (cplusplus \<in> defined (fst (pulled_all ext e)))) \<and>
        set (imports_of header_items) \<subseteq> seen (fst (pulled_all ext e)) \<and>
        \<Union> (provides ` set (imports_of header_items))
          \<subseteq> visible provides (entry_visible provides vis e)
              (snd (pulled_all ext e) @ own_lines (cplusplus \<in> defined (fst (pulled_all ext e))))"
    using seen vis
    by (simp only: include_header_expanded [OF assms(3)] imps visible_append visible_own_lines)
  then show ?thesis using l by auto
qed

theorem reexports_mbedtls_witness:
  "keeps_seen quiet \<and> brings file_name quiet \<and> guard \<notin> defined fresh \<and>
   (\<exists>s. include_header quiet fresh = Inr s \<and>
        set (imports_of header_items) \<subseteq> seen (fst s) \<and>
        \<Union> (file_name ` set (imports_of header_items))
          \<subseteq> visible file_name (entry_visible file_name {} fresh) (snd s))"
proof -
  have g: "guard \<notin> defined fresh" by (simp add: fresh_def)
  from reexports_mbedtls [OF quiet_keeps_seen quiet_brings g, of file_name "{}"] have
    "\<exists>s. include_header quiet fresh = Inr s \<and>
        set (imports_of header_items) \<subseteq> seen (fst s) \<and>
        \<Union> (file_name ` set (imports_of header_items))
          \<subseteq> visible file_name (entry_visible file_name {} fresh) (snd s)"
    by (rule conjunct2)
  with quiet_keeps_seen quiet_brings [of file_name] g show ?thesis by (intro conjI)
qed

text \<open>
  Claim C7. Including the header twice gives what including it once gives, the same
  events and the same macros and files: the second inclusion finds
  \<^verbatim>\<open>ThreadCommissioner_h\<close> defined and contributes nothing. Neither inclusion fails.
  The files the header brings in do not undefine its guard (\<open>keeps_defined guard\<close>).
\<close>

theorem include_guard_idempotent:
  assumes "keeps_defined guard ext"
  shows "(\<exists>s. include_header ext e = Inr s) \<and> include_twice ext e = include_header ext e"
proof (cases "guard \<in> defined e")
  case True
  then show ?thesis
    by (simp add: include_twice_def include_header_skipped)
next
  case False
  have "guard \<in> defined (fst (pulled_all ext e))"
    by (rule guard_after_pulled_all [OF assms])
  then show ?thesis
    by (simp add: include_twice_def include_header_expanded [OF False] include_header_skipped)
qed

theorem include_guard_idempotent_witness:
  "keeps_defined guard quiet \<and> (\<exists>s. include_header quiet fresh = Inr s) \<and>
   include_twice quiet fresh = include_header quiet fresh"
proof -
  have k: "keeps_defined guard quiet" by (rule quiet_keeps_defined)
  from include_guard_idempotent [OF k, of fresh] k show ?thesis by simp
qed

text \<open>
  Claim C8. A C++ translation unit and a C translation unit see the same declaration:
  with \<^verbatim>\<open>__cplusplus\<close> defined the prototype comes wrapped in \<^verbatim>\<open>extern "C" { }\<close>,
  without it the prototype comes alone, and in both the function
  \<^verbatim>\<open>mbedtls_ssl_set_hs_ecjpake_password\<close> is declared with the same prototype and the
  same unmangled symbol. The files the header brings in neither define nor undefine
  \<^verbatim>\<open>__cplusplus\<close>.
\<close>

theorem same_symbol_in_c_and_cxx:
  assumes "keeps_defined cplusplus ext" and "keeps_undefined cplusplus ext"
    and "guard \<notin> defined ec" and "cplusplus \<notin> defined ec"
    and "guard \<notin> defined ex" and "cplusplus \<in> defined ex"
  shows "\<exists>sc sx. include_header ext ec = Inr sc \<and> include_header ext ex = Inr sx \<and>
      items (line_tokens (snd sc)) = [Prototype ecjpake_prototype] \<and>
      items (line_tokens (snd sx)) =
        [LinkageOpen ''C'', Prototype ecjpake_prototype, BraceClose] \<and>
      own_declarations LangCxx (snd sx) = own_declarations LangC (snd sc) \<and>
      own_declarations LangC (snd sc) =
        Some [(Unmangled ''mbedtls_ssl_set_hs_ecjpake_password'', ecjpake_prototype)]"
proof -
  have c: "cplusplus \<notin> defined (fst (pulled_all ext ec))"
    using cplusplus_after_pulled_all [OF assms(1,2), of ec] assms(4) by simp
  have x: "cplusplus \<in> defined (fst (pulled_all ext ex))"
    using cplusplus_after_pulled_all [OF assms(1,2), of ex] assms(6) by simp
  have dc: "declare_items LangC [] [Prototype ecjpake_prototype] =
      Some [(Unmangled ''mbedtls_ssl_set_hs_ecjpake_password'', ecjpake_prototype)]"
    by (simp add: symbol_of_def ecjpake_prototype_def)
  have dx: "declare_items LangCxx [] [LinkageOpen ''C'', Prototype ecjpake_prototype, BraceClose] =
      Some [(Unmangled ''mbedtls_ssl_set_hs_ecjpake_password'', ecjpake_prototype)]"
    by (simp add: symbol_of_def ecjpake_prototype_def)
  show ?thesis
    using c x dc dx
    by (simp add: include_header_expanded [OF assms(3)] include_header_expanded [OF assms(5)]
        own_declarations_def line_tokens_append line_tokens_pulled_all
        items_own_lines_c items_own_lines_cxx)
qed

theorem same_symbol_in_c_and_cxx_witness:
  "\<exists>sc sx. include_header quiet fresh = Inr sc \<and> include_header quiet fresh_cxx = Inr sx \<and>
      items (line_tokens (snd sc)) = [Prototype ecjpake_prototype] \<and>
      items (line_tokens (snd sx)) =
        [LinkageOpen ''C'', Prototype ecjpake_prototype, BraceClose] \<and>
      own_declarations LangCxx (snd sx) = own_declarations LangC (snd sc) \<and>
      own_declarations LangC (snd sc) =
        Some [(Unmangled ''mbedtls_ssl_set_hs_ecjpake_password'', ecjpake_prototype)]"
proof (rule same_symbol_in_c_and_cxx [OF quiet_keeps_defined quiet_keeps_undefined])
  show "guard \<notin> defined fresh" by (simp add: fresh_def)
  show "cplusplus \<notin> defined fresh" by (simp add: fresh_def)
  show "guard \<notin> defined fresh_cxx" by (simp add: fresh_cxx_def guard_neq_cplusplus)
  show "cplusplus \<in> defined fresh_cxx" by (simp add: fresh_cxx_def)
qed

text \<open>
  Claim C9. The use of \<^verbatim>\<open>size_t\<close> in the prototype is always in scope: the header
  includes \<^verbatim>\<open>stddef.h\<close> on line 21, with \<^verbatim>\<open>#include\<close>, before the line of the
  prototype that names \<^verbatim>\<open>size_t\<close> (line 30). Whatever macros were defined, whatever
  files were read and whatever type names were in scope when the header is included, each
  line of its expansion that mentions \<^verbatim>\<open>size_t\<close> comes after \<^verbatim>\<open>stddef.h\<close> has been
  read, given that \<^verbatim>\<open>stddef.h\<close> declares \<^verbatim>\<open>size_t\<close>. Unless the guard was already
  defined, there is such a line.
\<close>

theorem size_t_in_scope:
  assumes "''size_t'' \<in> provides stddef"
  shows "header_items ! 20 = Directive (Include stddef) \<and>
         header_items ! 29 = Code ''size_t pw_len);'' \<and>
         (\<exists>s. include_header ext e = Inr s \<and> scoped provides ''size_t'' sc (snd s) \<and>
              (if guard \<in> defined e then snd s = []
               else list_ex (mentions ''size_t'') (snd s)))"
proof (cases "guard \<in> defined e")
  case True
  then show ?thesis by (simp add: include_header_skipped include_positions)
next
  case False
  obtain evs where evs: "set evs \<subseteq> range Pulled" "snd (pulled_all ext e) = evs @ [Pulled stddef]"
    using events_of_pulled_all by blast
  have "scoped provides ''size_t'' sc (evs @ Pulled stddef # own_lines b)" for b
    using evs(1) assms by (rule scoped_after_pull)
  moreover have "list_ex (mentions ''size_t'') (own_lines b)" for b
    by (simp add: own_lines_def)
  ultimately show ?thesis
    using False by (simp add: include_header_expanded [OF False] evs(2) include_positions)
qed

theorem size_t_in_scope_witness:
  "''size_t'' \<in> libc stddef \<and>
   (\<exists>s. include_header quiet fresh = Inr s \<and> scoped libc ''size_t'' {} (snd s) \<and>
        list_ex (mentions ''size_t'') (snd s))"
proof -
  have p: "''size_t'' \<in> libc stddef" by (simp add: libc_def)
  have g: "guard \<notin> defined fresh" by (simp add: fresh_def)
  from size_t_in_scope [where provides = libc and ext = quiet and e = fresh and sc = "{}", OF p]
    p g show ?thesis by simp
qed

end
